theory Spec2Isabelle
  imports Complex_Main
begin

section \<open>The ImageNet workload and its submission\<close>

text \<open>
  A shallow embedding of \<^verbatim>\<open>workloads/imagenet/imagenet_jax/workload.py\<close> and
  \<^verbatim>\<open>workloads/imagenet/imagenet_jax/submission.py\<close>.

  Python exceptions are values of the type \<open>error\<close>; a function that can raise returns
  \<open>error + 'a\<close>, with \<open>Inl\<close> for the exception. Python's unbounded integers are
  \<open>int\<close>. A floating-point scalar is modelled by the real number it denotes: the order
  comparisons of finite floats are the comparisons of those reals.
\<close>

subsection \<open>Exceptions\<close>

datatype error =
    ValueError string
  | KeyError string
  | TypeError
  | ZeroDivisionError
  | StopIteration
  | AttributeError string
  | IndexError
  | ExternalFailure

fun bind_err :: "error + 'a \<Rightarrow> ('a \<Rightarrow> error + 'b) \<Rightarrow> error + 'b" where
  "bind_err (Inl e) f = Inl e"
| "bind_err (Inr x) f = f x"

text \<open>The results of a list of computations, or the first exception among them.\<close>

fun sequence_err :: "(error + 'a) list \<Rightarrow> error + 'a list" where
  "sequence_err [] = Inr []"
| "sequence_err (r # rs) =
     bind_err r (\<lambda>x. bind_err (sequence_err rs) (\<lambda>xs. Inr (x # xs)))"

subsection \<open>Arrays and parameter trees\<close>

text \<open>
  An array is its shape and its elements in row-major order. A tree of arrays
  (a \<^verbatim>\<open>FrozenDict\<close> of arrays) is kept flattened: the key path of every leaf with the
  leaf, in the order of \<^verbatim>\<open>jax.tree_leaves\<close>.
\<close>

record ndarray =
  shape :: "nat list"
  elems :: "real list"

type_synonym pytree = "(string \<times> ndarray) list"

type_synonym shape_tree = "(string \<times> nat list) list"

text \<open>A dictionary of collections: \<^verbatim>\<open>'params'\<close>, \<^verbatim>\<open>'batch_stats'\<close>.\<close>

type_synonym variables = "string \<rightharpoonup> pytree"

definition ndim :: "ndarray \<Rightarrow> nat" where
  "ndim x = length (shape x)"

definition tree_leaves :: "(string \<times> 'a) list \<Rightarrow> 'a list" where
  "tree_leaves t = map snd t"

definition tree_map :: "('a \<Rightarrow> 'b) \<Rightarrow> (string \<times> 'a) list \<Rightarrow> (string \<times> 'b) list" where
  "tree_map f t = map (\<lambda>(k, x). (k, f x)) t"

definition nd_add :: "ndarray \<Rightarrow> ndarray \<Rightarrow> ndarray" where
  "nd_add x y = x\<lparr>elems := map2 (+) (elems x) (elems y)\<rparr>"

definition nd_scale :: "real \<Rightarrow> ndarray \<Rightarrow> ndarray" where
  "nd_scale c x = x\<lparr>elems := map ((*) c) (elems x)\<rparr>"

definition tree_add :: "pytree \<Rightarrow> pytree \<Rightarrow> pytree" where
  "tree_add a b = map2 (\<lambda>(k, x) (k', y). (k, nd_add x y)) a b"

definition tree_scale :: "real \<Rightarrow> pytree \<Rightarrow> pytree" where
  "tree_scale c t = tree_map (nd_scale c) t"

text \<open>\<^verbatim>\<open>optax.apply_updates\<close>: leaf by leaf, parameter plus update.\<close>

definition apply_updates :: "pytree \<Rightarrow> pytree \<Rightarrow> pytree" where
  "apply_updates params updates = tree_add params updates"

subsection \<open>Values held once per replica\<close>

text \<open>
  A value with a leading axis over the replicas is the list of its slices, one per
  replica. \<^verbatim>\<open>jax_utils.replicate\<close> copies a value to every device; \<^verbatim>\<open>lax.pmean\<close>
  inside a \<^verbatim>\<open>pmap\<close> leaves on every replica the arithmetic mean of the replicas'
  values.
\<close>

definition jax_replicate :: "nat \<Rightarrow> 'a \<Rightarrow> 'a list" where
  "jax_replicate r x = replicate r x"

text \<open>
  \<^verbatim>\<open>jnp.mean\<close>. The mean of an empty array is not a number in the source and 0 here;
  nothing below takes the mean of an empty array.
\<close>

definition mean :: "real list \<Rightarrow> real" where
  "mean xs = sum_list xs / real (length xs)"

fun tree_sum :: "pytree list \<Rightarrow> pytree" where
  "tree_sum [] = []"
| "tree_sum (t # ts) = foldl tree_add t ts"

definition tree_mean :: "pytree list \<Rightarrow> pytree" where
  "tree_mean ts = tree_scale (1 / real (length ts)) (tree_sum ts)"

definition pmean :: "pytree list \<Rightarrow> pytree list" where
  "pmean ts = map (\<lambda>_. tree_mean ts) ts"

text \<open>
  \<^verbatim>\<open>pmap\<close> refuses mapped arguments whose leading axes differ in size.
\<close>

definition pmap_axis_size :: "nat list \<Rightarrow> error + nat" where
  "pmap_axis_size ns =
     (case ns of
        [] \<Rightarrow> Inl (ValueError ''pmap: no mapped argument'')
      | n # rest \<Rightarrow>
          if list_all (\<lambda>m. m = n) rest then Inr n
          else Inl (ValueError ''pmap got inconsistent sizes for array axes to be mapped''))"

subsection \<open>Batches, datasets and iterators\<close>

record ('i, 'l) batch =
  image_b :: 'i
  label_b :: 'l

text \<open>
  Modelled from the spec: \<^verbatim>\<open>input_pipeline\<close> is not among the sources. A dataset handle
  is the sequence of batches it yields (\<open>None\<close> past its end), every batch already split
  into one slice of images and one of labels per replica; \<^verbatim>\<open>iter\<close> starts a cursor on
  it and \<^verbatim>\<open>next\<close> advances the cursor or raises \<^verbatim>\<open>StopIteration\<close>.
\<close>

type_synonym 'img sharded_batch = "('img list, nat list list) batch"

type_synonym 'img dataset_handle = "nat \<Rightarrow> 'img sharded_batch option"

record 'img iterator =
  source :: "'img dataset_handle"
  cursor :: nat

definition iter :: "'img dataset_handle \<Rightarrow> 'img iterator" where
  "iter ds = \<lparr> source = ds, cursor = 0 \<rparr>"

definition next_batch :: "'img iterator \<Rightarrow> error + ('img sharded_batch \<times> 'img iterator)" where
  "next_batch it =
     (case source it (cursor it) of
        None \<Rightarrow> Inl StopIteration
      | Some b \<Rightarrow> Inr (b, it\<lparr>cursor := Suc (cursor it)\<rparr>))"

subsection \<open>The libraries and modules outside the two files\<close>

text \<open>
  What the code calls and does not define, taken as parameters: the device count of
  \<^verbatim>\<open>jax.device_count()\<close>, \<^verbatim>\<open>tfds.builder\<close>, \<^verbatim>\<open>input_pipeline.create_input_iter\<close>
  (\<open>None\<close> when it fails), the classes of the module \<^verbatim>\<open>models\<close> by name, a model's
  \<^verbatim>\<open>init\<close> and \<^verbatim>\<open>apply\<close> (with the flags \<^verbatim>\<open>train\<close> and whether
  \<^verbatim>\<open>batch_stats\<close> is mutable), \<^verbatim>\<open>jax.numpy.squeeze\<close> on images,
  \<^verbatim>\<open>random_utils.split\<close> and the differentiation of a scalar function of the
  parameters.
\<close>

record ('bld, 'img, 'm, 'rng) env =
  device_count :: nat
  tfds_builder :: "string \<Rightarrow> 'bld"
  create_input_iter ::
    "'bld \<Rightarrow> int \<Rightarrow> real list \<Rightarrow> real list \<Rightarrow> bool \<Rightarrow> bool \<Rightarrow> 'img dataset_handle option"
  models :: "string \<Rightarrow> (nat \<Rightarrow> 'm) option"
  model_init :: "'m \<Rightarrow> 'rng \<Rightarrow> variables"
  model_apply :: "'m \<Rightarrow> variables \<Rightarrow> 'img \<Rightarrow> bool \<Rightarrow> bool \<Rightarrow> real list list \<times> variables"
  squeeze :: "'img \<Rightarrow> 'img"
  prng_split :: "'rng \<Rightarrow> nat \<Rightarrow> 'rng list"
  jax_grad :: "(pytree \<Rightarrow> real) \<Rightarrow> pytree \<Rightarrow> pytree"

subsection \<open>The workload object\<close>

text \<open>
  The fields that \<^verbatim>\<open>ImagenetWorkload.__init__\<close> sets, and \<^verbatim>\<open>_model\<close>, which
  \<^verbatim>\<open>init_model_fn\<close> sets later (\<open>None\<close> while the attribute is missing).
\<close>

record ('img, 'm) workload =
  eval_ds :: "'img dataset_handle option"
  param_shapes_field :: "shape_tree option"
  epoch_metrics :: "real list"
  model_name :: string
  dataset :: string
  num_classes :: nat
  model_field :: "'m option"

definition ImagenetWorkload :: "('img, 'm) workload" where
  "ImagenetWorkload =
     \<lparr> eval_ds = None,
       param_shapes_field = None,
       epoch_metrics = [],
       model_name = ''_ResNet1'',
       dataset = ''imagenette'',
       num_classes = 10,
       model_field = None \<rparr>"

definition target_value :: "('img, 'm) workload \<Rightarrow> real" where
  "target_value self = 76 / 100"

text \<open>
  \<^verbatim>\<open>eval_result['accuracy'] > self.target_value\<close>: the summary is a dictionary, and a
  missing key raises \<^verbatim>\<open>KeyError\<close>.
\<close>

definition has_reached_goal ::
  "('img, 'm) workload \<Rightarrow> (string \<rightharpoonup> real) \<Rightarrow> error + bool" where
  "has_reached_goal self eval_result =
     (case eval_result ''accuracy'' of
        None \<Rightarrow> Inl (KeyError ''accuracy'')
      | Some a \<Rightarrow> Inr (a > target_value self))"

definition train_mean :: "('img, 'm) workload \<Rightarrow> real list" where
  "train_mean self = [485 / 1000 * 255, 456 / 1000 * 255, 406 / 1000 * 255]"

definition train_stddev :: "('img, 'm) workload \<Rightarrow> real list" where
  "train_stddev self = [229 / 1000 * 255, 224 / 1000 * 255, 225 / 1000 * 255]"

text \<open>Python's \<^verbatim>\<open>sub in s\<close> on strings.\<close>

fun starts_with :: "string \<Rightarrow> string \<Rightarrow> bool" where
  "starts_with s [] = True"
| "starts_with [] (c # sub) = False"
| "starts_with (d # s) (c # sub) = (d = c \<and> starts_with s sub)"

fun str_contains :: "string \<Rightarrow> string \<Rightarrow> bool" where
  "str_contains sub [] = (sub = [])"
| "str_contains sub (d # s) = (starts_with (d # s) sub \<or> str_contains sub s)"

text \<open>
  The two properties fall off their end for any other dataset name, and Python then
  returns \<^verbatim>\<open>None\<close>.
\<close>

definition num_train_examples :: "('img, 'm) workload \<Rightarrow> int option" where
  "num_train_examples self =
     (if str_contains ''imagenet2012'' (dataset self) then Some 1271167
      else if ''imagenette'' = dataset self then Some 9469
      else None)"

definition num_eval_examples :: "('img, 'm) workload \<Rightarrow> int option" where
  "num_eval_examples self =
     (if str_contains ''imagenet2012'' (dataset self) then Some 100000
      else if ''imagenette'' = dataset self then Some 3925
      else None)"

text \<open>
  \<^verbatim>\<open>_build_dataset\<close>. The arguments \<^verbatim>\<open>data_rng\<close>, \<^verbatim>\<open>split\<close> and \<^verbatim>\<open>data_dir\<close> are
  parameters of the method, as in the source.
\<close>

definition build_dataset ::
  "('bld, 'img, 'm, 'rng) env \<Rightarrow> ('img, 'm) workload \<Rightarrow> 'rng \<Rightarrow> string \<Rightarrow> string \<Rightarrow> int
     \<Rightarrow> error + 'img dataset_handle" where
  "build_dataset E self data_rng split data_dir batch_size =
     (if device_count E = 0 then Inl ZeroDivisionError
      else if batch_size mod int (device_count E) > 0
      then Inl (ValueError ''Batch size must be divisible by the number of devices'')
      else
        (let ds_builder = tfds_builder E (dataset self) in
         case create_input_iter E ds_builder batch_size (train_mean self) (train_stddev self)
                True False of
           None \<Rightarrow> Inl ExternalFailure
         | Some ds \<Rightarrow> Inr ds))"

definition build_input_queue ::
  "('bld, 'img, 'm, 'rng) env \<Rightarrow> ('img, 'm) workload \<Rightarrow> 'rng \<Rightarrow> string \<Rightarrow> string \<Rightarrow> int
     \<Rightarrow> error + 'img iterator" where
  "build_input_queue E self data_rng split data_dir batch_size =
     bind_err (build_dataset E self data_rng split data_dir batch_size) (\<lambda>ds. Inr (iter ds))"

text \<open>The property \<^verbatim>\<open>param_shapes\<close>.\<close>

definition param_shapes :: "('img, 'm) workload \<Rightarrow> error + shape_tree" where
  "param_shapes self =
     (case param_shapes_field self of
        None \<Rightarrow>
          Inl (ValueError
            ''This should not happen, workload.init_model_fn() should be called before workload.param_shapes!'')
      | Some s \<Rightarrow> Inr s)"

text \<open>
  \<^verbatim>\<open>initialized\<close>: \<^verbatim>\<open>variables.pop('params')\<close> gives the dictionary without the key
  and the value at the key, or raises \<^verbatim>\<open>KeyError\<close>.
\<close>

definition initialized ::
  "('bld, 'img, 'm, 'rng) env \<Rightarrow> ('img, 'm) workload \<Rightarrow> 'rng \<Rightarrow> 'm
     \<Rightarrow> error + (pytree \<times> variables)" where
  "initialized E self key model =
     (let variables = model_init E model key in
      case variables ''params'' of
        None \<Rightarrow> Inl (KeyError ''params'')
      | Some params \<Rightarrow> Inr (params, variables(''params'' := None)))"

text \<open>
  \<^verbatim>\<open>init_model_fn\<close> returns the replicated parameters and model state, and the workload
  with \<^verbatim>\<open>_model\<close> and \<^verbatim>\<open>_param_shapes\<close> set.
\<close>

definition init_model_fn ::
  "('bld, 'img, 'm, 'rng) env \<Rightarrow> ('img, 'm) workload \<Rightarrow> 'rng
     \<Rightarrow> error + ((pytree list \<times> variables list) \<times> ('img, 'm) workload)" where
  "init_model_fn E self rng =
     (case models E (model_name self) of
        None \<Rightarrow> Inl (AttributeError (model_name self))
      | Some model_cls \<Rightarrow>
          (let model = model_cls (num_classes self);
               self1 = self\<lparr>model_field := Some model\<rparr>
           in bind_err (initialized E self1 rng model) (\<lambda>(params, model_state).
                let self2 = self1\<lparr>param_shapes_field := Some (tree_map shape params)\<rparr>
                in Inr ((jax_replicate (device_count E) params,
                         jax_replicate (device_count E) model_state), self2))))"

subsection \<open>Forward pass, loss and metrics\<close>

datatype ForwardPassMode = TRAIN | EVAL

text \<open>
  \<^verbatim>\<open>model_fn\<close>, on one replica's slice. \<^verbatim>\<open>{'params': params, **model_state}\<close> lets a
  key \<^verbatim>\<open>'params'\<close> of the model state win. Reading \<^verbatim>\<open>self._model\<close> before
  \<^verbatim>\<open>init_model_fn\<close> has set it raises \<^verbatim>\<open>AttributeError\<close>. The second result is
  \<open>None\<close> where the source returns \<^verbatim>\<open>None\<close>.
\<close>

definition model_fn ::
  "('bld, 'img, 'm, 'rng) env \<Rightarrow> ('img, 'm) workload \<Rightarrow> pytree \<Rightarrow> ('img, nat list) batch
     \<Rightarrow> variables \<Rightarrow> ForwardPassMode \<Rightarrow> 'rng \<Rightarrow> bool
     \<Rightarrow> error + (real list list \<times> variables option)" where
  "model_fn E self params input_batch model_state mode rng update_batch_norm =
     (let variables = [''params'' \<mapsto> params] ++ model_state;
          train = (mode = TRAIN)
      in case model_field self of
           None \<Rightarrow> Inl (AttributeError ''_model'')
         | Some model \<Rightarrow>
             if update_batch_norm then
               (case model_apply E model variables (squeeze E (image_b input_batch)) train True of
                  (logits, new_model_state) \<Rightarrow> Inr (logits, Some new_model_state))
             else
               (case model_apply E model variables (squeeze E (image_b input_batch)) train False of
                  (logits, _) \<Rightarrow> Inr (logits, None)))"

text \<open>
  \<^verbatim>\<open>jax.nn.one_hot\<close> and \<^verbatim>\<open>optax.softmax_cross_entropy\<close> as their documentation
  defines them: the cross entropy of a row of logits is minus the sum of the labels times
  the log-softmax of the row.
\<close>

definition one_hot :: "nat list \<Rightarrow> nat \<Rightarrow> real list list" where
  "one_hot labels n = map (\<lambda>l. map (\<lambda>c. if c = l then 1 else 0) [0..<n]) labels"

definition log_softmax :: "real list \<Rightarrow> real list" where
  "log_softmax row = map (\<lambda>x. x - ln (sum_list (map exp row))) row"

definition softmax_cross_entropy :: "real list list \<Rightarrow> real list list \<Rightarrow> real list" where
  "softmax_cross_entropy logits labels =
     map2 (\<lambda>lg lb. - sum_list (map2 (*) lb (log_softmax lg))) logits labels"

definition loss_fn :: "('img, 'm) workload \<Rightarrow> nat list \<Rightarrow> real list list \<Rightarrow> real" where
  "loss_fn self label_batch logits_batch =
     (let one_hot_labels = one_hot label_batch (num_classes self);
          xentropy = softmax_cross_entropy logits_batch one_hot_labels
      in mean xentropy)"

text \<open>
  \<^verbatim>\<open>jnp.argmax\<close>: the first index of a greatest element (of a row with at least one
  element, as every row of logits is).
\<close>

fun argmax_from :: "nat \<Rightarrow> nat \<Rightarrow> real \<Rightarrow> real list \<Rightarrow> nat" where
  "argmax_from i best b [] = best"
| "argmax_from i best b (x # xs) =
     (if b < x then argmax_from (Suc i) i x xs else argmax_from (Suc i) best b xs)"

definition argmax :: "real list \<Rightarrow> nat" where
  "argmax row = (case row of [] \<Rightarrow> 0 | x # xs \<Rightarrow> argmax_from 1 0 x xs)"

record metrics =
  loss :: real
  accuracy :: real

text \<open>
  \<^verbatim>\<open>compute_metrics\<close> up to its \<^verbatim>\<open>lax.pmean\<close>, on one replica; the mean over the
  replicas, which the \<^verbatim>\<open>pmap\<close> around \<^verbatim>\<open>eval_model_fn\<close> gives a meaning, follows
  in \<open>eval_model_fn\<close>.
\<close>

definition compute_metrics_local ::
  "('img, 'm) workload \<Rightarrow> real list list \<Rightarrow> nat list \<Rightarrow> metrics" where
  "compute_metrics_local self logits labels =
     \<lparr> loss = loss_fn self labels logits,
       accuracy = mean (map2 (\<lambda>row l. if argmax row = l then 1 else 0) logits labels) \<rparr>"

definition pmean_metrics :: "metrics list \<Rightarrow> metrics list" where
  "pmean_metrics ms =
     map (\<lambda>_. \<lparr> loss = mean (map loss ms), accuracy = mean (map accuracy ms) \<rparr>) ms"

text \<open>
  \<^verbatim>\<open>eval_model_fn\<close>: a \<^verbatim>\<open>pmap\<close> over the parameters, the batch and the model state
  (\<^verbatim>\<open>in_axes=(None, 0, 0, 0, None)\<close>); the result holds the metrics once per replica.
\<close>

definition eval_model_fn ::
  "('bld, 'img, 'm, 'rng) env \<Rightarrow> ('img, 'm) workload \<Rightarrow> pytree list \<Rightarrow> 'img sharded_batch
     \<Rightarrow> variables list \<Rightarrow> 'rng \<Rightarrow> error + metrics list" where
  "eval_model_fn E self params batch state rng =
     bind_err (pmap_axis_size
        [length params, length (image_b batch), length (label_b batch), length state])
      (\<lambda>_.
        bind_err (sequence_err
          (map (\<lambda>(p, img, lbl, st).
                  bind_err (model_fn E self p \<lparr>image_b = img, label_b = lbl\<rparr> st EVAL rng False)
                    (\<lambda>(logits, _). Inr (compute_metrics_local self logits lbl)))
               (zip params (zip (image_b batch) (zip (label_b batch) state)))))
          (\<lambda>local_metrics. Inr (pmean_metrics local_metrics)))"

subsection \<open>Synchronising the batch statistics\<close>

text \<open>
  \<^verbatim>\<open>sync_batch_stats\<close>: \<^verbatim>\<open>model_state['batch_stats']\<close> raises \<^verbatim>\<open>KeyError\<close> when the
  collection is missing; \<^verbatim>\<open>avg_fn\<close> is the \<^verbatim>\<open>pmap\<close> of \<^verbatim>\<open>lax.pmean\<close>, and
  \<^verbatim>\<open>copy\<close> stores its result under the same key.
\<close>

definition sync_batch_stats ::
  "('img, 'm) workload \<Rightarrow> variables list \<Rightarrow> error + variables list" where
  "sync_batch_stats self model_state =
     (case those (map (\<lambda>d. d ''batch_stats'') model_state) of
        None \<Rightarrow> Inl (KeyError ''batch_stats'')
      | Some batch_stats \<Rightarrow>
          Inr (map2 (\<lambda>d b. d(''batch_stats'' \<mapsto> b)) model_state (pmean batch_stats)))"

subsection \<open>Evaluation\<close>

definition eval_batch_size :: int where
  "eval_batch_size = 200"

text \<open>
  The loop \<^verbatim>\<open>for idx in range(num_batches)\<close> of \<^verbatim>\<open>eval_model\<close>, with the iterator,
  the list \<^verbatim>\<open>eval_metrics\<close> and \<^verbatim>\<open>total_accuracy\<close> as its state.
\<close>

fun eval_loop ::
  "('bld, 'img, 'm, 'rng) env \<Rightarrow> ('img, 'm) workload \<Rightarrow> pytree list \<Rightarrow> variables list \<Rightarrow> 'rng
     \<Rightarrow> nat \<Rightarrow> 'img iterator \<Rightarrow> metrics list list \<Rightarrow> real
     \<Rightarrow> error + (metrics list list \<times> real \<times> 'img iterator)" where
  "eval_loop E self params model_state rng 0 eval_iter eval_metrics total_accuracy =
     Inr (eval_metrics, total_accuracy, eval_iter)"
| "eval_loop E self params model_state rng (Suc n) eval_iter eval_metrics total_accuracy =
     bind_err (next_batch eval_iter) (\<lambda>(batch, eval_iter').
       bind_err (eval_model_fn E self params batch model_state rng) (\<lambda>synced_metrics.
         eval_loop E self params model_state rng n eval_iter'
           (eval_metrics @ [synced_metrics])
           (total_accuracy + mean (map accuracy synced_metrics))))"

text \<open>
  The summary: replica 0 of every batch's metrics (\<^verbatim>\<open>x[0]\<close>), stacked over the batches
  and averaged. \<^verbatim>\<open>tree_multimap\<close> without a tree raises \<^verbatim>\<open>TypeError\<close>.
\<close>

definition summarize :: "metrics list list \<Rightarrow> error + (string \<rightharpoonup> real)" where
  "summarize eval_metrics =
     bind_err (sequence_err
        (map (\<lambda>ms. case ms of [] \<Rightarrow> Inl IndexError | m # _ \<Rightarrow> Inr m) eval_metrics))
      (\<lambda>firsts.
        if firsts = [] then Inl TypeError
        else Inr [''loss'' \<mapsto> mean (map loss firsts),
                  ''accuracy'' \<mapsto> mean (map accuracy firsts)])"

text \<open>
  \<^verbatim>\<open>eval_model\<close> returns the summary; the workload, whose \<^verbatim>\<open>_eval_ds\<close> it may have
  set, and the iterator it read from are returned with it.
\<close>

definition eval_model ::
  "('bld, 'img, 'm, 'rng) env \<Rightarrow> ('img, 'm) workload \<Rightarrow> pytree list \<Rightarrow> variables list \<Rightarrow> 'rng
     \<Rightarrow> string \<Rightarrow> error + ((string \<rightharpoonup> real) \<times> ('img, 'm) workload \<times> 'img iterator)" where
  "eval_model E self params model_state rng data_dir =
     bind_err (sync_batch_stats self model_state) (\<lambda>model_state.
       case prng_split E rng 2 of
         [data_rng, model_rng] \<Rightarrow>
           (case num_eval_examples self of
              None \<Rightarrow> Inl TypeError
            | Some n \<Rightarrow>
                (let num_batches = n div eval_batch_size in
                 bind_err
                   (case eval_ds self of
                      None \<Rightarrow>
                        bind_err (build_dataset E self data_rng ''test'' data_dir eval_batch_size)
                          (\<lambda>ds. Inr (self\<lparr>eval_ds := Some ds\<rparr>))
                    | Some _ \<Rightarrow> Inr self)
                   (\<lambda>self.
                      case eval_ds self of
                        None \<Rightarrow> Inl TypeError
                      | Some ds \<Rightarrow>
                          bind_err (eval_loop E self params model_state rng (nat num_batches)
                                      (iter ds) [] 0)
                            (\<lambda>(eval_metrics, total_accuracy, eval_iter).
                               bind_err (summarize eval_metrics)
                                 (\<lambda>summary. Inr (summary, self, eval_iter))))))
       | _ \<Rightarrow> Inl (ValueError ''not enough values to unpack''))"

subsection \<open>The submission: batch size and learning-rate schedule\<close>

text \<open>
  The fields of \<^verbatim>\<open>spec.Hyperparamters\<close> that the submission reads. Epoch counts are
  Python numbers, whole or not.
\<close>

record hyperparameters =
  learning_rate :: real
  momentum :: real
  l2 :: real
  warmup_epochs :: real
  num_epochs :: real

definition get_batch_size :: "string \<Rightarrow> int" where
  "get_batch_size workload_name = 128"

text \<open>\<^verbatim>\<open>cosine_decay\<close>; Python's division by zero raises.\<close>

definition cosine_decay :: "real \<Rightarrow> real \<Rightarrow> real \<Rightarrow> error + real" where
  "cosine_decay lr step total_steps =
     (if total_steps = 0 then Inl ZeroDivisionError
      else
        (let ratio = max 0 (step / total_steps);
             mult = (1 / 2) * (1 + cos (pi * ratio))
         in Inr (mult * lr)))"

text \<open>
  The schedules of \<^verbatim>\<open>optax\<close>, as its documentation and source define them.
  \<^verbatim>\<open>linear_schedule\<close> is the polynomial schedule of power 1 that begins at step 0: it is
  constant at \<open>init_value\<close> when \<open>transition_steps\<close> is not positive, and otherwise
  clips the count to \<open>[0, transition_steps]\<close>. \<^verbatim>\<open>cosine_decay_schedule\<close> (with
  \<open>alpha = 0\<close>) refuses \<open>decay_steps\<close> that are not positive and clips the count from
  above. \<^verbatim>\<open>join_schedules\<close> starts with the first schedule and, for every boundary in
  turn, switches at the boundary to the next schedule, which counts from the boundary.
\<close>

definition linear_schedule :: "real \<Rightarrow> real \<Rightarrow> real \<Rightarrow> real \<Rightarrow> real" where
  "linear_schedule init_value end_value transition_steps count =
     (if transition_steps \<le> 0 then init_value
      else
        (let c = min (max count 0) transition_steps;
             frac = 1 - c / transition_steps
         in (init_value - end_value) * frac + end_value))"

definition cosine_decay_schedule :: "real \<Rightarrow> real \<Rightarrow> error + (real \<Rightarrow> real)" where
  "cosine_decay_schedule init_value decay_steps =
     (if \<not> decay_steps > 0
      then Inl (ValueError ''The cosine_decay_schedule requires positive decay_steps!'')
      else Inr (\<lambda>count.
        (let c = min count decay_steps;
             cosine = (1 / 2) * (1 + cos (pi * c / decay_steps))
         in init_value * cosine)))"

fun join_from :: "real \<Rightarrow> real \<Rightarrow> (real \<times> (real \<Rightarrow> real)) list \<Rightarrow> real" where
  "join_from step output [] = output"
| "join_from step output ((boundary, schedule) # rest) =
     join_from step (if step < boundary then output else schedule (step - boundary)) rest"

definition join_schedules :: "(real \<Rightarrow> real) list \<Rightarrow> real list \<Rightarrow> error + (real \<Rightarrow> real)" where
  "join_schedules schedules boundaries =
     (case schedules of
        [] \<Rightarrow> Inl IndexError
      | first # others \<Rightarrow> Inr (\<lambda>step. join_from step (first step) (zip boundaries others)))"

definition create_learning_rate_fn :: "hyperparameters \<Rightarrow> int \<Rightarrow> error + (real \<Rightarrow> real)" where
  "create_learning_rate_fn hparams steps_per_epoch =
     (let base_learning_rate = learning_rate hparams * real_of_int (get_batch_size ''imagenet'') / 256;
          warmup_fn = linear_schedule 0 base_learning_rate
                        (warmup_epochs hparams * real_of_int steps_per_epoch);
          cosine_epochs = max (num_epochs hparams - warmup_epochs hparams) 1
      in bind_err (cosine_decay_schedule base_learning_rate
                     (cosine_epochs * real_of_int steps_per_epoch))
           (\<lambda>cosine_fn.
              join_schedules [warmup_fn, cosine_fn]
                [warmup_epochs hparams * real_of_int steps_per_epoch]))"

text \<open>The rate that the schedule gives at a step.\<close>

definition learning_rate_at :: "hyperparameters \<Rightarrow> int \<Rightarrow> real \<Rightarrow> error + real" where
  "learning_rate_at hparams steps_per_epoch step =
     bind_err (create_learning_rate_fn hparams steps_per_epoch) (\<lambda>schedule_fn. Inr (schedule_fn step))"

subsection \<open>The submission: one training step\<close>

text \<open>
  \<^verbatim>\<open>_loss_fn\<close> inside \<^verbatim>\<open>pmapped_train_step\<close>, on one replica. The leaves of the
  penalty are those of \<^verbatim>\<open>variables['params']\<close>.
\<close>

definition inner_loss_fn ::
  "('bld, 'img, 'm, 'rng) env \<Rightarrow> ('img, 'm) workload \<Rightarrow> variables \<Rightarrow> hyperparameters
     \<Rightarrow> ('img, nat list) batch \<Rightarrow> 'rng \<Rightarrow> pytree
     \<Rightarrow> error + (real \<times> (variables option \<times> real list list))" where
  "inner_loss_fn E workload model_state hparams batch rng params =
     (let variables = [''params'' \<mapsto> params] ++ model_state in
      bind_err (model_fn E workload params batch model_state TRAIN rng True)
        (\<lambda>(logits, new_model_state).
           let loss = loss_fn workload (label_b batch) logits in
           case variables ''params'' of
             None \<Rightarrow> Inl (KeyError ''params'')
           | Some ps \<Rightarrow>
               (let weight_penalty_params = tree_leaves ps;
                    weight_l2 = sum_list (map (\<lambda>x. sum_list (map (\<lambda>e. e ^ 2) (elems x)))
                                  (filter (\<lambda>x. ndim x > 1) weight_penalty_params));
                    weight_penalty = l2 hparams * (1 / 2) * weight_l2
                in Inr (loss + weight_penalty, (new_model_state, logits)))))"

text \<open>
  \<^verbatim>\<open>jax.value_and_grad(f, has_aux=True)\<close> at a point: the value of \<^verbatim>\<open>f\<close> there, with
  its auxiliary result, and the gradient of its first component; an exception of \<^verbatim>\<open>f\<close>
  at the point is the exception of the call.
\<close>

definition value_and_grad ::
  "('bld, 'img, 'm, 'rng) env \<Rightarrow> (pytree \<Rightarrow> error + (real \<times> 'aux)) \<Rightarrow> pytree
     \<Rightarrow> error + ((real \<times> 'aux) \<times> pytree)" where
  "value_and_grad E f x =
     bind_err (f x) (\<lambda>v.
       Inr (v, jax_grad E (\<lambda>p. case f p of Inr (l, _) \<Rightarrow> l | Inl _ \<Rightarrow> 0) x))"

text \<open>
  \<^verbatim>\<open>pmapped_train_step\<close>: a \<^verbatim>\<open>pmap\<close> over the model state, the optimizer state, the
  parameters and the batch (\<^verbatim>\<open>in_axes=(None, None, 0, 0, 0, None, 0, None)\<close>). Every
  replica differentiates the loss on its slice; \<^verbatim>\<open>lax.pmean\<close> replaces the gradients by
  their mean over the replicas; every replica then runs \<^verbatim>\<open>opt_update_fn\<close> and
  \<^verbatim>\<open>optax.apply_updates\<close>. A model state that is \<^verbatim>\<open>None\<close> is not a dictionary;
  \<open>model_fn\<close> returns a dictionary whenever it updates the batch statistics.
\<close>

definition pmapped_train_step ::
  "('bld, 'img, 'm, 'rng) env \<Rightarrow> ('img, 'm) workload \<Rightarrow> (pytree \<Rightarrow> 'os \<Rightarrow> pytree \<Rightarrow> pytree \<times> 'os)
     \<Rightarrow> variables list \<Rightarrow> 'os list \<Rightarrow> pytree list \<Rightarrow> hyperparameters \<Rightarrow> 'img sharded_batch
     \<Rightarrow> 'rng \<Rightarrow> error + (variables list \<times> 'os list \<times> pytree list)" where
  "pmapped_train_step E workload opt_update_fn model_state optimizer_state
      current_param_container hparams batch rng =
     bind_err (pmap_axis_size
        [length model_state, length optimizer_state, length current_param_container,
         length (image_b batch), length (label_b batch)])
      (\<lambda>_.
        bind_err (sequence_err
          (map (\<lambda>(ms, p, img, lbl).
                  value_and_grad E
                    (inner_loss_fn E workload ms hparams \<lparr>image_b = img, label_b = lbl\<rparr> rng) p)
               (zip model_state
                  (zip current_param_container (zip (image_b batch) (label_b batch))))))
          (\<lambda>results.
             let grad = pmean (map snd results) in
             case those (map (\<lambda>(aux, g). fst (snd aux)) results) of
               None \<Rightarrow> Inl TypeError
             | Some new_model_state \<Rightarrow>
                 (let stepped = map (\<lambda>(g, os, p). opt_update_fn g os p)
                                  (zip grad (zip optimizer_state current_param_container));
                      new_optimizer_state = map snd stepped;
                      updated_params = map2 apply_updates current_param_container (map fst stepped)
                  in Inr (new_model_state, new_optimizer_state, updated_params))))"

text \<open>
  \<^verbatim>\<open>update_params\<close>. \<^verbatim>\<open>workload.num_train_examples\<close> may be \<^verbatim>\<open>None\<close>, which
  \<^verbatim>\<open>//\<close> refuses; \<^verbatim>\<open>%\<close> by zero raises.
\<close>

definition update_params ::
  "('bld, 'img, 'm, 'rng) env \<Rightarrow> ('img, 'm) workload \<Rightarrow> pytree list \<Rightarrow> 'types \<Rightarrow> variables list
     \<Rightarrow> hyperparameters \<Rightarrow> 'img list \<Rightarrow> nat list list \<Rightarrow> 'loss_type
     \<Rightarrow> 'os list \<times> (pytree \<Rightarrow> 'os \<Rightarrow> pytree \<Rightarrow> pytree \<times> 'os) \<Rightarrow> (int \<times> real) list \<Rightarrow> int \<Rightarrow> 'rng
     \<Rightarrow> error + (('os list \<times> (pytree \<Rightarrow> 'os \<Rightarrow> pytree \<Rightarrow> pytree \<times> 'os)) \<times> pytree list
                  \<times> variables list)" where
  "update_params E workload current_param_container current_params_types model_state
      hparams input_batch label_batch loss_type optimizer_state_pair eval_results global_step rng =
     (let batch = \<lparr>image_b = input_batch, label_b = label_batch\<rparr> in
      case optimizer_state_pair of (optimizer_state, opt_update_fn) \<Rightarrow>
        bind_err (pmapped_train_step E workload opt_update_fn model_state optimizer_state
                    current_param_container hparams batch rng)
          (\<lambda>(new_model_state, new_optimizer_state, new_params).
             case num_train_examples workload of
               None \<Rightarrow> Inl TypeError
             | Some n \<Rightarrow>
                 (let steps_per_epoch = n div get_batch_size ''imagenet'' in
                  if steps_per_epoch = 0 then Inl ZeroDivisionError
                  else if (global_step + 1) mod steps_per_epoch = 0 then
                    bind_err (sync_batch_stats workload new_model_state)
                      (\<lambda>new_model_state.
                         Inr ((new_optimizer_state, opt_update_fn), new_params, new_model_state))
                  else Inr ((new_optimizer_state, opt_update_fn), new_params, new_model_state))))"

subsection \<open>Replica-identical values\<close>

text \<open>A value held once per replica is replica-identical when all its copies are equal.\<close>

fun replica_identical :: "'a list \<Rightarrow> bool" where
  "replica_identical [] = True"
| "replica_identical (x # xs) = list_all (\<lambda>y. y = x) xs"

subsection \<open>A small instance\<close>

text \<open>
  Two devices; a model whose logits are its images and whose batch statistics are the sum
  of the images it saw; a dataset that never ends in training mode and has 25 batches
  otherwise; a stand-in for differentiation that scales the point by the value there.
\<close>

definition toy_variables :: variables where
  "toy_variables =
     [''params'' \<mapsto> [(''kernel'', \<lparr>shape = [1, 2], elems = [1, 2]\<rparr>),
                       (''bias'', \<lparr>shape = [2], elems = [3, 4]\<rparr>)],
      ''batch_stats'' \<mapsto> [(''mean'', \<lparr>shape = [1], elems = [0]\<rparr>)]]"

definition toy_dataset :: "bool \<Rightarrow> (real list list) dataset_handle" where
  "toy_dataset train i =
     (if train \<or> i < 25
      then Some \<lparr> image_b = [[[1, 0]], [[0, 0]]], label_b = [[0], [1]] \<rparr>
      else None)"

definition toy_env :: "(string, real list list, unit, nat) env" where
  "toy_env =
     \<lparr> device_count = 2,
       tfds_builder = (\<lambda>name. name),
       create_input_iter = (\<lambda>bld batch_size m s train cache. Some (toy_dataset train)),
       models = (\<lambda>name. if name = ''_ResNet1'' then Some (\<lambda>n. ()) else None),
       model_init = (\<lambda>m rng. toy_variables),
       model_apply = (\<lambda>m vs img train mutable.
          (img, [''batch_stats'' \<mapsto>
                   [(''mean'', \<lparr>shape = [1], elems = [sum_list (map sum_list img)]\<rparr>)]])),
       squeeze = (\<lambda>img. img),
       prng_split = (\<lambda>rng n. map (\<lambda>i. rng + i) [0..<n]),
       jax_grad = (\<lambda>f p. tree_scale (f p) p) \<rparr>"

definition toy_workload :: "(real list list, unit) workload" where
  "toy_workload = ImagenetWorkload\<lparr>num_classes := 2, model_field := Some ()\<rparr>"

definition toy_params :: pytree where
  "toy_params = [(''kernel'', \<lparr>shape = [1, 2], elems = [1, 2]\<rparr>),
                 (''bias'', \<lparr>shape = [2], elems = [3, 4]\<rparr>)]"

definition toy_state :: variables where
  "toy_state = [''batch_stats'' \<mapsto> [(''mean'', \<lparr>shape = [1], elems = [0]\<rparr>)]]"

definition toy_hparams :: hyperparameters where
  "toy_hparams = \<lparr>learning_rate = 1, momentum = 0, l2 = 1, warmup_epochs = 5, num_epochs = 10\<rparr>"

definition toy_opt_update :: "pytree \<Rightarrow> nat \<Rightarrow> pytree \<Rightarrow> pytree \<times> nat" where
  "toy_opt_update g os p = (tree_scale (- 1) g, Suc os)"

definition toy_batch :: "(real list list) sharded_batch" where
  "toy_batch = \<lparr>image_b = [[[1, 0]], [[0, 0]]], label_b = [[0], [1]]\<rparr>"

definition toy_metrics :: "metrics list" where
  "toy_metrics = pmean_metrics [compute_metrics_local toy_workload [[1, 0]] [0],
                                compute_metrics_local toy_workload [[0, 0]] [1]]"

section \<open>Properties\<close>

subsection \<open>The goal test\<close>

text \<open>
  C3: for every evaluation summary with an accuracy field, \<open>has_reached_goal\<close> returns
  true if and only if the accuracy strictly exceeds the fixed target 0.76; an accuracy of
  exactly 0.76 gives false, an accuracy of 0.7601 gives true.
\<close>

theorem has_reached_goal_strict:
  "(eval_result ''accuracy'' = Some a \<longrightarrow>
      has_reached_goal self eval_result = Inr (76 / 100 < a))
   \<and> has_reached_goal self [''accuracy'' \<mapsto> 76 / 100] = Inr False
   \<and> has_reached_goal self [''accuracy'' \<mapsto> 7601 / 10000] = Inr True"
  by (simp add: has_reached_goal_def target_value_def)

theorem has_reached_goal_strict_witness:
  "has_reached_goal (ImagenetWorkload :: (unit, unit) workload)
      [''loss'' \<mapsto> 1 / 2, ''accuracy'' \<mapsto> 77 / 100] = Inr True
   \<and> has_reached_goal (ImagenetWorkload :: (unit, unit) workload)
      [''loss'' \<mapsto> 1 / 2, ''accuracy'' \<mapsto> 75 / 100] = Inr False"
  using has_reached_goal_strict
          [of "[''loss'' \<mapsto> 1 / 2, ''accuracy'' \<mapsto> 77 / 100]" "77 / 100"
              "ImagenetWorkload :: (unit, unit) workload"]
        has_reached_goal_strict
          [of "[''loss'' \<mapsto> 1 / 2, ''accuracy'' \<mapsto> 75 / 100]" "75 / 100"
              "ImagenetWorkload :: (unit, unit) workload"]
  by simp

subsection \<open>Validation of the batch size\<close>

lemma mod_pos_iff: "0 < d \<Longrightarrow> (0 < (b::int) mod d) = (b mod d \<noteq> 0)"
proof -
  assume "0 < d"
  then have "0 \<le> b mod d" by simp
  then show ?thesis by arith
qed

text \<open>
  C8: with at least one device, \<open>build_input_queue\<close> raises the validation error exactly
  when the batch size is not divisible by the number of devices; the check comes before
  anything else, so the error does not depend on the dataset or the pipeline.
\<close>

theorem build_input_queue_validation:
  "0 < device_count E \<Longrightarrow>
     (build_input_queue E self data_rng split data_dir batch_size
        = Inl (ValueError ''Batch size must be divisible by the number of devices''))
     = (batch_size mod int (device_count E) \<noteq> 0)"
  by (simp add: build_input_queue_def build_dataset_def Let_def mod_pos_iff split: option.splits)

theorem build_input_queue_validation_witness:
  "build_input_queue toy_env toy_workload (0::nat) ''train'' ''/data'' 127
      = Inl (ValueError ''Batch size must be divisible by the number of devices'')
   \<and> build_input_queue toy_env toy_workload (0::nat) ''train'' ''/data'' 128
      \<noteq> Inl (ValueError ''Batch size must be divisible by the number of devices'')"
  using build_input_queue_validation [of toy_env toy_workload 0 "''train''" "''/data''" 127]
        build_input_queue_validation [of toy_env toy_workload 0 "''train''" "''/data''" 128]
  by (simp add: toy_env_def)

subsection \<open>The parameter shapes\<close>

text \<open>
  C9: reading \<open>param_shapes\<close> while \<^verbatim>\<open>_param_shapes\<close> is unset, as it is in a new
  workload, raises the error; after \<open>init_model_fn\<close> has returned, \<open>param_shapes\<close> of the
  workload it leaves is the tree of the shapes of the parameters it initialised.
\<close>

theorem param_shapes_lifecycle:
  "(param_shapes_field self = None \<longrightarrow>
      param_shapes self = Inl (ValueError
        ''This should not happen, workload.init_model_fn() should be called before workload.param_shapes!''))
   \<and> param_shapes_field (ImagenetWorkload :: ('img, 'm) workload) = None
   \<and> (init_model_fn (E :: ('bld, 'img, 'm, 'rng) env) self rng
          = Inr ((params, model_state), self') \<longrightarrow>
        (\<exists>p. params = replicate (device_count E) p
             \<and> param_shapes self' = Inr (map (\<lambda>(k, x). (k, shape x)) p)))"
  by (auto simp: param_shapes_def ImagenetWorkload_def init_model_fn_def initialized_def Let_def
      tree_map_def jax_replicate_def split: option.splits)

lemma toy_init:
  "init_model_fn toy_env ImagenetWorkload (0::nat)
     = Inr ((replicate 2 [(''kernel'', \<lparr>shape = [1, 2], elems = [1, 2]\<rparr>),
                          (''bias'', \<lparr>shape = [2], elems = [3, 4]\<rparr>)],
             replicate 2 (toy_variables(''params'' := None))),
            ImagenetWorkload\<lparr>model_field := Some (),
               param_shapes_field := Some [(''kernel'', [1, 2]), (''bias'', [2])]\<rparr>)"
  by (simp add: init_model_fn_def toy_env_def ImagenetWorkload_def initialized_def
      toy_variables_def tree_map_def jax_replicate_def)

theorem param_shapes_lifecycle_witness:
  "param_shapes (ImagenetWorkload :: (real list list, unit) workload) = Inl (ValueError
        ''This should not happen, workload.init_model_fn() should be called before workload.param_shapes!'')
   \<and> param_shapes (ImagenetWorkload\<lparr>model_field := Some (),
               param_shapes_field := Some [(''kernel'', [1, 2]), (''bias'', [2])]\<rparr>
         :: (real list list, unit) workload)
       = Inr [(''kernel'', [1, 2]), (''bias'', [2])]"
proof -
  note t = param_shapes_lifecycle [where E = toy_env and self = ImagenetWorkload and rng = "0::nat"]
  from t have a: "param_shapes (ImagenetWorkload :: (real list list, unit) workload) = Inl (ValueError
        ''This should not happen, workload.init_model_fn() should be called before workload.param_shapes!'')"
    by blast
  from t toy_init have "\<exists>p. replicate 2 [(''kernel'', \<lparr>shape = [1, 2], elems = [1, 2]\<rparr>),
                          (''bias'', \<lparr>shape = [2], elems = [3, 4]\<rparr>)] = replicate (device_count toy_env) p
      \<and> param_shapes (ImagenetWorkload\<lparr>model_field := Some (),
               param_shapes_field := Some [(''kernel'', [1, 2]), (''bias'', [2])]\<rparr>
         :: (real list list, unit) workload) = Inr (map (\<lambda>(k, x). (k, shape x)) p)"
    by blast
  then have b: "param_shapes (ImagenetWorkload\<lparr>model_field := Some (),
               param_shapes_field := Some [(''kernel'', [1, 2]), (''bias'', [2])]\<rparr>
         :: (real list list, unit) workload)
       = Inr [(''kernel'', [1, 2]), (''bias'', [2])]"
    by (auto simp: toy_env_def)
  from a b show ?thesis by simp
qed

subsection \<open>The epoch boundary of \<open>update_params\<close>\<close>

text \<open>
  C1: once the training step has returned, \<open>update_params\<close> passes the new model state
  through \<open>sync_batch_stats\<close> if \<open>(global_step + 1) mod steps_per_epoch = 0\<close>, and returns
  it untouched otherwise, where \<open>steps_per_epoch\<close> is the number of training examples
  divided (rounding down) by the batch size of \<open>get_batch_size\<close>. For the 9469 examples of
  imagenette and the batch size 128 there are 73 steps per epoch: the boundary is at
  \<open>global_step = 72\<close> and not at \<open>global_step = 71\<close>.
\<close>

theorem update_params_sync_boundary:
  "(pmapped_train_step E workload opt_update_fn model_state optimizer_state params hparams
        \<lparr>image_b = input_batch, label_b = label_batch\<rparr> rng
      = Inr (new_model_state, new_optimizer_state, new_params)
    \<and> num_train_examples workload = Some n
    \<and> n div get_batch_size ''imagenet'' \<noteq> 0
    \<longrightarrow>
    update_params E workload params types model_state hparams input_batch label_batch loss_type
        (optimizer_state, opt_update_fn) eval_results global_step rng
      = (if (global_step + 1) mod (n div get_batch_size ''imagenet'') = 0
         then bind_err (sync_batch_stats workload new_model_state)
                (\<lambda>synced. Inr ((new_optimizer_state, opt_update_fn), new_params, synced))
         else Inr ((new_optimizer_state, opt_update_fn), new_params, new_model_state)))
   \<and> (dataset workload = ''imagenette'' \<longrightarrow>
        num_train_examples workload = Some 9469
        \<and> 9469 div get_batch_size ''imagenet'' = 73
        \<and> ((global_step + 1) mod (9469 div get_batch_size ''imagenet'') = 0)
            = ((global_step + 1) mod 73 = 0)
        \<and> (72 + 1) mod (9469 div get_batch_size ''imagenet'') = 0
        \<and> (71 + 1) mod (9469 div get_batch_size ''imagenet'') \<noteq> 0)"
  by (simp add: update_params_def Let_def num_train_examples_def get_batch_size_def)

lemma toy_dataset_name: "dataset toy_workload = ''imagenette''"
  by (simp add: toy_workload_def ImagenetWorkload_def)

lemma toy_train_step:
  "\<exists>nos np. pmapped_train_step toy_env toy_workload toy_opt_update [toy_state, toy_state] [0, 0]
      [toy_params, toy_params] toy_hparams
      \<lparr>image_b = [[[1, 0]], [[0, 0]]], label_b = [[0], [1]]\<rparr> (0::nat)
    = Inr ([[''batch_stats'' \<mapsto> [(''mean'', \<lparr>shape = [1], elems = [1]\<rparr>)]],
            [''batch_stats'' \<mapsto> [(''mean'', \<lparr>shape = [1], elems = [0]\<rparr>)]]], nos, np)"
  by (simp add: pmapped_train_step_def pmap_axis_size_def value_and_grad_def inner_loss_fn_def
      model_fn_def toy_env_def toy_workload_def ImagenetWorkload_def toy_opt_update_def
      toy_state_def toy_params_def toy_hparams_def)

lemma toy_sync:
  "sync_batch_stats toy_workload
      [[''batch_stats'' \<mapsto> [(''mean'', \<lparr>shape = [1], elems = [1]\<rparr>)]],
       [''batch_stats'' \<mapsto> [(''mean'', \<lparr>shape = [1], elems = [0]\<rparr>)]]]
    = Inr [[''batch_stats'' \<mapsto> [(''mean'', \<lparr>shape = [1], elems = [1 / 2]\<rparr>)]],
           [''batch_stats'' \<mapsto> [(''mean'', \<lparr>shape = [1], elems = [1 / 2]\<rparr>)]]]"
  by (simp add: sync_batch_stats_def pmean_def tree_mean_def tree_scale_def tree_map_def
      nd_scale_def tree_add_def nd_add_def)

theorem update_params_sync_boundary_witness:
  "(\<exists>nos np.
      update_params toy_env toy_workload [toy_params, toy_params] () [toy_state, toy_state]
        toy_hparams [[[1, 0]], [[0, 0]]] [[0], [1]] () ([0, 0], toy_opt_update) [] 72 (0::nat)
      = Inr ((nos, toy_opt_update), np,
             [[''batch_stats'' \<mapsto> [(''mean'', \<lparr>shape = [1], elems = [1 / 2]\<rparr>)]],
              [''batch_stats'' \<mapsto> [(''mean'', \<lparr>shape = [1], elems = [1 / 2]\<rparr>)]]])
    \<and> update_params toy_env toy_workload [toy_params, toy_params] () [toy_state, toy_state]
        toy_hparams [[[1, 0]], [[0, 0]]] [[0], [1]] () ([0, 0], toy_opt_update) [] 71 (0::nat)
      = Inr ((nos, toy_opt_update), np,
             [[''batch_stats'' \<mapsto> [(''mean'', \<lparr>shape = [1], elems = [1]\<rparr>)]],
              [''batch_stats'' \<mapsto> [(''mean'', \<lparr>shape = [1], elems = [0]\<rparr>)]]]))"
proof -
  from toy_train_step obtain nos np where
    step: "pmapped_train_step toy_env toy_workload toy_opt_update [toy_state, toy_state] [0, 0]
      [toy_params, toy_params] toy_hparams
      \<lparr>image_b = [[[1, 0]], [[0, 0]]], label_b = [[0], [1]]\<rparr> (0::nat)
    = Inr ([[''batch_stats'' \<mapsto> [(''mean'', \<lparr>shape = [1], elems = [1]\<rparr>)]],
            [''batch_stats'' \<mapsto> [(''mean'', \<lparr>shape = [1], elems = [0]\<rparr>)]]], nos, np)"
    by blast
  have n: "num_train_examples toy_workload = Some 9469"
    "(9469::int) div get_batch_size ''imagenet'' \<noteq> 0"
    using update_params_sync_boundary [where workload = toy_workload, THEN conjunct2]
      toy_dataset_name
    by (simp_all add: get_batch_size_def)
  have a: "update_params toy_env toy_workload [toy_params, toy_params] () [toy_state, toy_state]
        toy_hparams [[[1, 0]], [[0, 0]]] [[0], [1]] () ([0, 0], toy_opt_update) [] 72 (0::nat)
      = Inr ((nos, toy_opt_update), np,
             [[''batch_stats'' \<mapsto> [(''mean'', \<lparr>shape = [1], elems = [1 / 2]\<rparr>)]],
              [''batch_stats'' \<mapsto> [(''mean'', \<lparr>shape = [1], elems = [1 / 2]\<rparr>)]]])"
    using update_params_sync_boundary [where E = toy_env and workload = toy_workload
        and global_step = 72 and n = 9469 and types = "()" and loss_type = "()"
        and eval_results = "[]", THEN conjunct1, rule_format, OF conjI [OF step conjI [OF n]]]
      toy_sync
    by (simp add: get_batch_size_def)
  have b: "update_params toy_env toy_workload [toy_params, toy_params] () [toy_state, toy_state]
        toy_hparams [[[1, 0]], [[0, 0]]] [[0], [1]] () ([0, 0], toy_opt_update) [] 71 (0::nat)
      = Inr ((nos, toy_opt_update), np,
             [[''batch_stats'' \<mapsto> [(''mean'', \<lparr>shape = [1], elems = [1]\<rparr>)]],
              [''batch_stats'' \<mapsto> [(''mean'', \<lparr>shape = [1], elems = [0]\<rparr>)]]])"
    using update_params_sync_boundary [where E = toy_env and workload = toy_workload
        and global_step = 71 and n = 9469 and types = "()" and loss_type = "()"
        and eval_results = "[]", THEN conjunct1, rule_format, OF conjI [OF step conjI [OF n]]]
    by (simp add: get_batch_size_def)
  from a b show ?thesis by blast
qed

subsection \<open>Parameters and optimizer state stay replica-identical\<close>

lemma replica_identical_replicate: "replica_identical (replicate n x)"
  by (cases n) (simp_all add: list_all_iff)

lemma replica_identical_iff: "replica_identical xs = (\<exists>x. xs = replicate (length xs) x)"
proof (cases xs)
  case Nil then show ?thesis by simp
next
  case (Cons a ys)
  have "list_all (\<lambda>y. y = a) ys = (ys = replicate (length ys) a)"
    by (induction ys) auto
  then show ?thesis using Cons by auto
qed

lemma pmap_axis_size_Inr:
  "pmap_axis_size ns = Inr r \<Longrightarrow> \<forall>n \<in> set ns. n = r"
  by (cases ns) (auto simp: pmap_axis_size_def list_all_iff split: if_splits)

lemma sequence_err_length:
  "sequence_err rs = Inr xs \<Longrightarrow> length xs = length rs"
proof (induction rs arbitrary: xs)
  case Nil then show ?case by simp
next
  case (Cons r rs)
  then show ?case
    by (cases r; cases "sequence_err rs") auto
qed

lemma pmean_replicate: "pmean ts = replicate (length ts) (tree_mean ts)"
  by (simp add: pmean_def map_replicate_const)

lemma pmapped_train_step_lengths:
  assumes step: "pmapped_train_step E workload f model_state optimizer_state params hparams batch rng
            = Inr (nms, nos, np)"
  shows "length optimizer_state = length params"
proof -
  from step obtain n where n: "pmap_axis_size
        [length model_state, length optimizer_state, length params,
         length (image_b batch), length (label_b batch)] = Inr n"
    by (cases "pmap_axis_size
        [length model_state, length optimizer_state, length params,
         length (image_b batch), length (label_b batch)]") (auto simp: pmapped_train_step_def)
  from pmap_axis_size_Inr[OF n] show ?thesis by auto
qed

lemma pmapped_train_step_identical:
  assumes step: "pmapped_train_step E workload f model_state (replicate r os) (replicate r p) hparams batch rng
            = Inr (nms, nos, np)"
  shows "\<exists>grads. length grads = r
          \<and> nos = replicate r (snd (f (tree_mean grads) os p))
          \<and> np = replicate r (apply_updates p (fst (f (tree_mean grads) os p)))"
proof -
  let ?shards = "zip model_state (zip (replicate r p) (zip (image_b batch) (label_b batch)))"
  let ?runs = "map (\<lambda>(ms, p, img, lbl).
                  value_and_grad E
                    (inner_loss_fn E workload ms hparams \<lparr>image_b = img, label_b = lbl\<rparr> rng) p) ?shards"
  from step obtain n where n: "pmap_axis_size
        [length model_state, length (replicate r os), length (replicate r p),
         length (image_b batch), length (label_b batch)] = Inr n"
    by (cases "pmap_axis_size
        [length model_state, length (replicate r os), length (replicate r p),
         length (image_b batch), length (label_b batch)]") (auto simp: pmapped_train_step_def)
  from pmap_axis_size_Inr[OF n] have lens: "length model_state = r" "length (image_b batch) = r"
      "length (label_b batch) = r"
    by auto
  from step n obtain results where res: "sequence_err ?runs = Inr results"
    by (cases "sequence_err ?runs") (auto simp: pmapped_train_step_def)
  from sequence_err_length[OF res] lens have lr: "length results = r" by simp
  define grads where "grads = map snd results"
  have lg: "length grads = r" using lr by (simp add: grads_def)
  from step n res have out:
    "nos = map snd (map (\<lambda>(g, os, p). f g os p) (zip (pmean grads) (zip (replicate r os) (replicate r p))))"
    "np = map2 apply_updates (replicate r p) (map fst (map (\<lambda>(g, os, p). f g os p) (zip (pmean grads) (zip (replicate r os) (replicate r p)))))"
    by (auto simp: pmapped_train_step_def Let_def grads_def split: option.splits)
  have z: "zip (pmean grads) (zip (replicate r os) (replicate r p)) = replicate r (tree_mean grads, os, p)"
    by (simp add: pmean_replicate lg zip_replicate)
  have 1: "nos = replicate r (snd (f (tree_mean grads) os p))"
    unfolding out(1) z by simp
  have 2: "np = replicate r (apply_updates p (fst (f (tree_mean grads) os p)))"
    unfolding out(2) z by (simp add: zip_replicate)
  from lg 1 2 show ?thesis by blast
qed

lemma update_params_Inr:
  assumes "update_params E workload params types model_state hparams input_batch label_batch
             loss_type (optimizer_state, f) eval_results global_step rng = Inr ((nos, f'), np, nms)"
  shows "f' = f \<and> (\<exists>nms0. pmapped_train_step E workload f model_state optimizer_state params hparams
            \<lparr>image_b = input_batch, label_b = label_batch\<rparr> rng = Inr (nms0, nos, np))"
proof (cases "pmapped_train_step E workload f model_state optimizer_state params hparams
            \<lparr>image_b = input_batch, label_b = label_batch\<rparr> rng")
  case (Inl e)
  with assms show ?thesis by (simp add: update_params_def)
next
  case (Inr t)
  obtain a b c where t: "t = (a, b, c)" by (cases t)
  show ?thesis
  proof (cases "sync_batch_stats workload a")
    case (Inl e)
    with assms Inr t show ?thesis
      by (auto simp: update_params_def Let_def split: option.splits if_splits)
  next
    case (Inr s)
    with assms \<open>pmapped_train_step E workload f model_state optimizer_state params hparams
            \<lparr>image_b = input_batch, label_b = label_batch\<rparr> rng = Inr t\<close> t show ?thesis
      by (auto simp: update_params_def Let_def split: option.splits if_splits)
  qed
qed

text \<open>
  C2: if the parameters and the optimizer state that enter a step are replica-identical and
  \<open>update_params\<close> returns, at any \<open>global_step\<close>, then the new parameters and the new
  optimizer state are replica-identical again: every replica applies the same
  \<open>opt_update_fn\<close> to the mean over the replicas of the gradients, to the same optimizer
  state and to the same parameters. The conclusion is the hypothesis of the next step.
\<close>

theorem update_params_replica_identical:
  "replica_identical params \<and> replica_identical optimizer_state
   \<and> update_params E workload params types model_state hparams input_batch label_batch
        loss_type (optimizer_state, opt_update_fn) eval_results global_step rng
      = Inr ((new_optimizer_state, opt_update_fn'), new_params, new_model_state)
   \<longrightarrow> replica_identical new_params \<and> replica_identical new_optimizer_state
       \<and> length new_params = length params
       \<and> length new_optimizer_state = length optimizer_state
       \<and> opt_update_fn' = opt_update_fn
       \<and> (\<exists>grads p os.
             length grads = length params
             \<and> params = replicate (length params) p
             \<and> optimizer_state = replicate (length params) os
             \<and> new_params = replicate (length params)
                  (apply_updates p (fst (opt_update_fn (tree_mean grads) os p)))
             \<and> new_optimizer_state = replicate (length params)
                  (snd (opt_update_fn (tree_mean grads) os p)))"
proof (intro impI, elim conjE)
  assume ip: "replica_identical params" and io: "replica_identical optimizer_state"
    and up: "update_params E workload params types model_state hparams input_batch label_batch
        loss_type (optimizer_state, opt_update_fn) eval_results global_step rng
      = Inr ((new_optimizer_state, opt_update_fn'), new_params, new_model_state)"
  from update_params_Inr[OF up] obtain nms0 where f: "opt_update_fn' = opt_update_fn"
    and step: "pmapped_train_step E workload opt_update_fn model_state optimizer_state params hparams
            \<lparr>image_b = input_batch, label_b = label_batch\<rparr> rng
          = Inr (nms0, new_optimizer_state, new_params)"
    by blast
  let ?r = "length params"
  from pmapped_train_step_lengths[OF step] have lo: "length optimizer_state = ?r" .
  from ip obtain p where p: "params = replicate ?r p"
    by (auto simp: replica_identical_iff)
  from io lo obtain os where os: "optimizer_state = replicate ?r os"
    by (auto simp: replica_identical_iff)
  from step have "pmapped_train_step E workload opt_update_fn model_state (replicate ?r os)
       (replicate ?r p) hparams \<lparr>image_b = input_batch, label_b = label_batch\<rparr> rng
          = Inr (nms0, new_optimizer_state, new_params)"
    using p os by simp
  from pmapped_train_step_identical[OF this] obtain grads where g: "length grads = ?r"
    "new_optimizer_state = replicate ?r (snd (opt_update_fn (tree_mean grads) os p))"
    "new_params = replicate ?r (apply_updates p (fst (opt_update_fn (tree_mean grads) os p)))"
    by blast
  have "replica_identical new_params" "replica_identical new_optimizer_state"
    by (subst g, rule replica_identical_replicate)+
  moreover have "length new_params = ?r" "length new_optimizer_state = length optimizer_state"
    using g lo by (metis length_replicate)+
  ultimately show "replica_identical new_params \<and> replica_identical new_optimizer_state
       \<and> length new_params = length params
       \<and> length new_optimizer_state = length optimizer_state
       \<and> opt_update_fn' = opt_update_fn
       \<and> (\<exists>grads p os.
             length grads = length params
             \<and> params = replicate (length params) p
             \<and> optimizer_state = replicate (length params) os
             \<and> new_params = replicate (length params)
                  (apply_updates p (fst (opt_update_fn (tree_mean grads) os p)))
             \<and> new_optimizer_state = replicate (length params)
                  (snd (opt_update_fn (tree_mean grads) os p)))"
    using f g p os by blast
qed

lemma toy_update_params:
  "\<exists>nos np nms.
      update_params toy_env toy_workload [toy_params, toy_params] () [toy_state, toy_state]
        toy_hparams [[[1, 0]], [[0, 0]]] [[0], [1]] () ([0, 0], toy_opt_update) [] 72 (0::nat)
      = Inr ((nos, toy_opt_update), np, nms)"
  using toy_train_step toy_sync
  by (auto simp: update_params_def num_train_examples_def get_batch_size_def toy_dataset_name)

theorem update_params_replica_identical_witness:
  "\<exists>nos np nms.
      update_params toy_env toy_workload [toy_params, toy_params] () [toy_state, toy_state]
        toy_hparams [[[1, 0]], [[0, 0]]] [[0], [1]] () ([0, 0], toy_opt_update) [] 72 (0::nat)
      = Inr ((nos, toy_opt_update), np, nms)
    \<and> replica_identical [toy_params, toy_params] \<and> replica_identical [0::nat, 0]
    \<and> replica_identical np \<and> replica_identical nos \<and> length np = 2 \<and> length nos = 2"
proof -
  from toy_update_params obtain nos np nms where
    u: "update_params toy_env toy_workload [toy_params, toy_params] () [toy_state, toy_state]
        toy_hparams [[[1, 0]], [[0, 0]]] [[0], [1]] () ([0, 0], toy_opt_update) [] 72 (0::nat)
      = Inr ((nos, toy_opt_update), np, nms)"
    by blast
  have i: "replica_identical [toy_params, toy_params]" "replica_identical [0::nat, 0]"
    by simp_all
  from update_params_replica_identical [rule_format, OF conjI [OF i(1) conjI [OF i(2) u]]]
  have "replica_identical np \<and> replica_identical nos \<and> length np = 2 \<and> length nos = 2"
    by simp
  with u i show ?thesis by blast
qed

subsection \<open>The loss of a training step\<close>

lemma sum_list_filter_if:
  "sum_list (map f (filter P xs)) = sum_list (map (\<lambda>x. if P x then f x else (0::real)) xs)"
  by (induction xs) simp_all

text \<open>
  C5: on every replica the total loss of \<open>inner_loss_fn\<close> is the loss of the workload on
  the logits of the replica's slice plus \<open>l2 * 0.5\<close> times the sum, over the leaves of the
  parameters, of the squares of the elements of those leaves whose rank is greater than 1;
  a leaf of rank 0 or 1 adds nothing. The parameters are those of
  \<^verbatim>\<open>variables['params']\<close>, which are the parameters being differentiated whenever the
  model state has no collection \<^verbatim>\<open>'params'\<close>.
\<close>

theorem inner_loss_fn_total_loss:
  "(model_field workload = Some model
    \<and> ([''params'' \<mapsto> params] ++ model_state) ''params'' = Some ps \<longrightarrow>
     (\<exists>logits new_model_state.
        model_fn E workload params batch model_state TRAIN rng True
          = Inr (logits, Some new_model_state)
        \<and> inner_loss_fn E workload model_state hparams batch rng params
          = Inr (loss_fn workload (label_b batch) logits
                   + l2 hparams * (1 / 2)
                     * (\<Sum>x\<leftarrow>tree_leaves ps.
                          if 1 < length (shape x) then (\<Sum>e\<leftarrow>elems x. e ^ 2) else 0),
                 (Some new_model_state, logits))))
   \<and> (model_state ''params'' = None \<longrightarrow>
        ([''params'' \<mapsto> params] ++ model_state) ''params'' = Some params)"
  by (auto simp: inner_loss_fn_def model_fn_def Let_def map_add_def ndim_def sum_list_filter_if
      split: prod.splits option.splits)

theorem inner_loss_fn_total_loss_witness:
  "\<exists>logits new_model_state.
     model_fn toy_env toy_workload toy_params \<lparr>image_b = [[1, 0]], label_b = [0]\<rparr> toy_state
        TRAIN (0::nat) True = Inr (logits, Some new_model_state)
     \<and> inner_loss_fn toy_env toy_workload toy_state toy_hparams
          \<lparr>image_b = [[1, 0]], label_b = [0]\<rparr> (0::nat) toy_params
        = Inr (loss_fn toy_workload [0] logits + 5 / 2, (Some new_model_state, logits))"
  using inner_loss_fn_total_loss [where workload = toy_workload and model = "()"
      and model_state = toy_state and E = toy_env and params = toy_params and ps = toy_params
      and batch = "\<lparr>image_b = [[1, 0]], label_b = [0]\<rparr>" and rng = "0::nat"
      and hparams = toy_hparams]
  by (simp add: toy_workload_def toy_state_def toy_params_def toy_hparams_def tree_leaves_def)

subsection \<open>The batches of an evaluation\<close>

lemma eval_loop_cursor:
  "eval_loop E self params model_state rng k it ms tot = Inr (ms', tot', it')
   \<Longrightarrow> cursor it' = cursor it + k \<and> source it' = source it \<and> length ms' = length ms + k
       \<and> (\<forall>i. cursor it \<le> i \<and> i < cursor it + k \<longrightarrow> source it i \<noteq> None)"
proof (induction k arbitrary: it ms tot)
  case 0
  then show ?case by auto
next
  case (Suc k)
  from Suc.prems obtain b it1 where nb: "next_batch it = Inr (b, it1)"
    by (cases "next_batch it") auto
  with Suc.prems obtain m where m: "eval_model_fn E self params b model_state rng = Inr m"
    by (cases "eval_model_fn E self params b model_state rng") auto
  from nb have it1: "cursor it1 = Suc (cursor it)" "source it1 = source it"
      "source it (cursor it) \<noteq> None"
    by (auto simp: next_batch_def split: option.splits)
  from Suc.prems nb m have
    "eval_loop E self params model_state rng k it1 (ms @ [m]) (tot + mean (map accuracy m))
       = Inr (ms', tot', it')"
    by simp
  from Suc.IH[OF this] it1 show ?case
    by (auto simp: le_Suc_eq less_Suc_eq_le) (metis Suc_leI le_neq_implies_less not_less_eq_eq)
qed

lemma eval_model_Inr:
  assumes "eval_model E self params model_state rng data_dir = Inr (summary, self', eval_iter)"
  shows "\<exists>n ds synced ms tot.
           num_eval_examples self = Some n
         \<and> eval_ds self' = Some ds
         \<and> (case eval_ds self of
               None \<Rightarrow> (\<exists>data_rng. build_dataset E self data_rng ''test'' data_dir eval_batch_size = Inr ds)
                         \<and> self' = self\<lparr>eval_ds := Some ds\<rparr>
             | Some ds0 \<Rightarrow> self' = self)
         \<and> eval_loop E self' params synced rng (nat (n div eval_batch_size)) (iter ds) [] 0
              = Inr (ms, tot, eval_iter)"
proof -
  from assms obtain synced where s: "sync_batch_stats self model_state = Inr synced"
    by (cases "sync_batch_stats self model_state") (auto simp: eval_model_def)
  from assms s obtain data_rng model_rng where r: "prng_split E rng 2 = [data_rng, model_rng]"
    by (auto simp: eval_model_def split: list.splits)
  from assms s r obtain n where n: "num_eval_examples self = Some n"
    by (auto simp: eval_model_def split: option.splits)
  show ?thesis
  proof (cases "eval_ds self")
    case None
    with assms s r n obtain ds where
      b: "build_dataset E self data_rng ''test'' data_dir eval_batch_size = Inr ds"
      by (cases "build_dataset E self data_rng ''test'' data_dir eval_batch_size")
         (auto simp: eval_model_def Let_def)
    let ?self = "self\<lparr>eval_ds := Some ds\<rparr>"
    from assms s r n None b obtain ms tot it where
      l: "eval_loop E ?self params synced rng (nat (n div eval_batch_size)) (iter ds) [] 0
            = Inr (ms, tot, it)"
      by (cases "eval_loop E ?self params synced rng (nat (n div eval_batch_size)) (iter ds) [] 0")
         (auto simp: eval_model_def Let_def)
    with assms s r n None b have "self' = ?self" "eval_iter = it"
      by (cases "summarize ms"; auto simp: eval_model_def Let_def)+
    with n None b l show ?thesis by auto
  next
    case (Some ds)
    with assms s r n obtain ms tot it where
      l: "eval_loop E self params synced rng (nat (n div eval_batch_size)) (iter ds) [] 0
            = Inr (ms, tot, it)"
      by (cases "eval_loop E self params synced rng (nat (n div eval_batch_size)) (iter ds) [] 0")
         (auto simp: eval_model_def Let_def)
    with assms s r n Some have "self' = self" "eval_iter = it"
      by (cases "summarize ms"; auto simp: eval_model_def Let_def)+
    with n Some l show ?thesis by auto
  qed
qed

text \<open>
  C4, as the specification states it, asks the evaluation batch size to be smaller than
  the training batch size. It is not: \<open>eval_batch_size\<close> is 200 and \<open>get_batch_size\<close> gives
  128.
\<close>

theorem eval_batch_size_not_smaller: "\<not> eval_batch_size < get_batch_size ''imagenet''"
  by (simp add: eval_batch_size_def get_batch_size_def)

text \<open>
  C4, amended: \<open>eval_model\<close> reads its dataset, which it builds with the constant batch
  size 200 unless the workload already holds one, in batches of that size, and the training
  batch size is 128. When it returns, it has taken exactly
  \<open>num_eval_examples div 200\<close> batches from a new iterator on that dataset, each of them a
  batch of the dataset; these hold at most \<open>num_eval_examples\<close> examples, and the
  \<open>num_eval_examples mod 200\<close> trailing examples are not read.
\<close>

theorem eval_model_batches:
  "(eval_model E self params model_state rng data_dir = Inr (summary, self', eval_iter) \<longrightarrow>
      (\<exists>n ds. num_eval_examples self = Some n
          \<and> eval_ds self' = Some ds
          \<and> source eval_iter = ds
          \<and> (eval_ds self = None \<longrightarrow>
               (\<exists>data_rng. build_dataset E self data_rng ''test'' data_dir 200 = Inr ds))
          \<and> int (cursor eval_iter) = n div 200
          \<and> (\<forall>i. i < cursor eval_iter \<longrightarrow> ds i \<noteq> None)
          \<and> int (cursor eval_iter) * 200 \<le> n
          \<and> n - int (cursor eval_iter) * 200 = n mod 200))
   \<and> eval_batch_size = 200
   \<and> get_batch_size ''imagenet'' = 128"
proof (intro conjI impI)
  assume a: "eval_model E self params model_state rng data_dir = Inr (summary, self', eval_iter)"
  from eval_model_Inr[OF a] obtain n ds synced ms tot where
    n: "num_eval_examples self = Some n" and ds: "eval_ds self' = Some ds"
    and b: "case eval_ds self of
               None \<Rightarrow> (\<exists>data_rng. build_dataset E self data_rng ''test'' data_dir eval_batch_size = Inr ds)
                         \<and> self' = self\<lparr>eval_ds := Some ds\<rparr>
             | Some ds0 \<Rightarrow> self' = self"
    and l: "eval_loop E self' params synced rng (nat (n div eval_batch_size)) (iter ds) [] 0
              = Inr (ms, tot, eval_iter)"
    by blast
  from n have n0: "0 \<le> n"
    by (auto simp: num_eval_examples_def split: if_splits)
  from eval_loop_cursor[OF l] have c: "cursor eval_iter = nat (n div 200)"
    "source eval_iter = ds" "\<forall>i. i < cursor eval_iter \<longrightarrow> ds i \<noteq> None"
    by (auto simp: iter_def eval_batch_size_def)
  from c(1) n0 have ci: "int (cursor eval_iter) = n div 200"
    by simp
  have "int (cursor eval_iter) * 200 \<le> n" "n - int (cursor eval_iter) * 200 = n mod 200"
    unfolding ci using n0 by (simp_all add: minus_div_mult_eq_mod)
  with n ds b c ci show "\<exists>n ds. num_eval_examples self = Some n
          \<and> eval_ds self' = Some ds
          \<and> source eval_iter = ds
          \<and> (eval_ds self = None \<longrightarrow>
               (\<exists>data_rng. build_dataset E self data_rng ''test'' data_dir 200 = Inr ds))
          \<and> int (cursor eval_iter) = n div 200
          \<and> (\<forall>i. i < cursor eval_iter \<longrightarrow> ds i \<noteq> None)
          \<and> int (cursor eval_iter) * 200 \<le> n
          \<and> n - int (cursor eval_iter) * 200 = n mod 200"
    by (auto simp: eval_batch_size_def split: option.splits)
qed (simp_all add: eval_batch_size_def get_batch_size_def)

lemma toy_compute_metrics:
  "compute_metrics_local (toy_workload\<lparr>eval_ds := d\<rparr>) logits labels
     = compute_metrics_local toy_workload logits labels"
  by (simp add: compute_metrics_local_def loss_fn_def toy_workload_def)

lemma toy_eval_model_fn:
  "eval_model_fn toy_env (toy_workload\<lparr>eval_ds := d\<rparr>) [p1, p2] toy_batch [s1, s2] rng
     = Inr toy_metrics"
  by (simp add: eval_model_fn_def pmap_axis_size_def toy_batch_def model_fn_def toy_metrics_def
      toy_compute_metrics)
     (simp add: toy_env_def toy_workload_def)

lemma toy_next_batch:
  "source it = toy_dataset True \<Longrightarrow> next_batch it = Inr (toy_batch, it\<lparr>cursor := Suc (cursor it)\<rparr>)"
  by (simp add: next_batch_def toy_dataset_def toy_batch_def)

lemma toy_eval_loop:
  "source it = toy_dataset True \<Longrightarrow>
     eval_loop toy_env (toy_workload\<lparr>eval_ds := d\<rparr>) [p1, p2] [s1, s2] rng k it ms tot
       = Inr (ms @ replicate k toy_metrics,
              tot + real k * mean (map accuracy toy_metrics),
              it\<lparr>cursor := cursor it + k\<rparr>)"
proof (induction k arbitrary: it ms tot)
  case 0
  then show ?case by simp
next
  case (Suc k)
  have "source (it\<lparr>cursor := Suc (cursor it)\<rparr>) = toy_dataset True"
    using Suc.prems by simp
  from Suc.IH[OF this] show ?case
    using Suc.prems
    by (simp add: toy_next_batch toy_eval_model_fn replicate_app_Cons_same algebra_simps)
qed

lemma sequence_err_replicate: "sequence_err (replicate k (Inr x)) = Inr (replicate k x)"
  by (induction k) simp_all

lemma toy_summarize: "0 < k \<Longrightarrow> \<exists>summary. summarize (replicate k toy_metrics) = Inr summary"
  by (simp add: summarize_def toy_metrics_def pmean_metrics_def sequence_err_replicate)

lemma toy_num_eval: "num_eval_examples toy_workload = Some 3925"
  by (simp add: num_eval_examples_def toy_workload_def ImagenetWorkload_def)

lemma toy_build_eval:
  "build_dataset toy_env toy_workload r split data_dir 200 = Inr (toy_dataset True)"
  by (simp add: build_dataset_def toy_env_def)

lemma toy_sync_state:
  "\<exists>s1 s2. sync_batch_stats toy_workload [toy_state, toy_state] = Inr [s1, s2]"
  by (simp add: sync_batch_stats_def toy_state_def pmean_def)

lemma toy_eval_model:
  "\<exists>summary. eval_model toy_env toy_workload [toy_params, toy_params] [toy_state, toy_state]
       (0::nat) ''/data''
     = Inr (summary, toy_workload\<lparr>eval_ds := Some (toy_dataset True)\<rparr>,
            \<lparr>source = toy_dataset True, cursor = 19\<rparr>)"
proof -
  from toy_sync_state obtain s1 s2 where
    s: "sync_batch_stats toy_workload [toy_state, toy_state] = Inr [s1, s2]" by blast
  have sp: "prng_split toy_env (0::nat) 2 = [0, 1]"
    by (simp add: toy_env_def numeral_2_eq_2)
  have e: "eval_ds toy_workload = None"
    by (simp add: toy_workload_def ImagenetWorkload_def)
  have nb: "nat (3925 div eval_batch_size) = 19"
    by (simp add: eval_batch_size_def)
  from toy_summarize[of 19] obtain summary where
    su: "summarize (replicate 19 toy_metrics) = Inr summary" by auto
  have "eval_model toy_env toy_workload [toy_params, toy_params] [toy_state, toy_state]
       (0::nat) ''/data''
     = Inr (summary, toy_workload\<lparr>eval_ds := Some (toy_dataset True)\<rparr>,
            \<lparr>source = toy_dataset True, cursor = 19\<rparr>)"
    unfolding eval_model_def
    by (simp add: s sp toy_num_eval e nb)
       (simp add: eval_batch_size_def toy_build_eval toy_eval_loop iter_def su)
  then show ?thesis by blast
qed

theorem eval_model_batches_witness:
  "\<exists>summary eval_iter.
      eval_model toy_env toy_workload [toy_params, toy_params] [toy_state, toy_state]
         (0::nat) ''/data''
        = Inr (summary, toy_workload\<lparr>eval_ds := Some (toy_dataset True)\<rparr>, eval_iter)
      \<and> num_eval_examples toy_workload = Some 3925
      \<and> cursor eval_iter = 19
      \<and> int (cursor eval_iter) * 200 = 3800
      \<and> 3925 - int (cursor eval_iter) * 200 = 125"
proof -
  from toy_eval_model obtain summary where
    e: "eval_model toy_env toy_workload [toy_params, toy_params] [toy_state, toy_state]
         (0::nat) ''/data''
        = Inr (summary, toy_workload\<lparr>eval_ds := Some (toy_dataset True)\<rparr>,
               \<lparr>source = toy_dataset True, cursor = 19\<rparr>)"
    by blast
  from eval_model_batches [THEN conjunct1, rule_format, OF e] toy_num_eval
  have "int (cursor \<lparr>source = toy_dataset True, cursor = 19\<rparr>) = 3925 div 200"
    by auto
  then have "cursor \<lparr>source = toy_dataset True, cursor = 19\<rparr> = (19::nat)
      \<and> int (cursor \<lparr>source = toy_dataset True, cursor = 19\<rparr>) * 200 = 3800
      \<and> 3925 - int (cursor \<lparr>source = toy_dataset True, cursor = 19\<rparr>) * 200 = 125"
    by simp
  with e toy_num_eval show ?thesis by blast
qed

subsection \<open>The split and the data directory\<close>

text \<open>
  C10: the dataset of \<open>build_dataset\<close>, and so the iterator of \<open>build_input_queue\<close>, is the
  same whatever \<^verbatim>\<open>split\<close> and \<^verbatim>\<open>data_dir\<close> are: for the same random state and batch
  size, two calls give the same result. When a dataset is returned, it is the one that the
  input pipeline makes in training mode (\<^verbatim>\<open>train=True\<close>, \<^verbatim>\<open>cache=False\<close>). The dataset
  that \<open>eval_model\<close> builds for the split \<^verbatim>\<open>'test'\<close> is therefore the training-mode
  dataset of batch size \<open>eval_batch_size\<close> that any other split and directory give.
\<close>

theorem build_dataset_ignores_split:
  "build_dataset E self data_rng split data_dir batch_size
      = build_dataset E self data_rng split' data_dir' batch_size
   \<and> build_input_queue E self data_rng split data_dir batch_size
      = build_input_queue E self data_rng split' data_dir' batch_size
   \<and> (build_dataset E self data_rng split data_dir batch_size = Inr ds \<longrightarrow>
        create_input_iter E (tfds_builder E (dataset self)) batch_size
          (train_mean self) (train_stddev self) True False = Some ds)
   \<and> (eval_ds self = None
        \<and> eval_model E self params model_state rng data_dir = Inr (summary, self', eval_iter)
       \<longrightarrow> (\<exists>eds. eval_ds self' = Some eds \<and> source eval_iter = eds
             \<and> build_dataset E self data_rng split data_dir eval_batch_size = Inr eds
             \<and> create_input_iter E (tfds_builder E (dataset self)) eval_batch_size
                 (train_mean self) (train_stddev self) True False = Some eds))"
proof (intro conjI impI)
  show "build_dataset E self data_rng split data_dir batch_size
      = build_dataset E self data_rng split' data_dir' batch_size"
    by (simp add: build_dataset_def)
  then show "build_input_queue E self data_rng split data_dir batch_size
      = build_input_queue E self data_rng split' data_dir' batch_size"
    by (simp add: build_input_queue_def)
next
  assume "build_dataset E self data_rng split data_dir batch_size = Inr ds"
  then show "create_input_iter E (tfds_builder E (dataset self)) batch_size
          (train_mean self) (train_stddev self) True False = Some ds"
    by (auto simp: build_dataset_def Let_def split: if_splits option.splits)
next
  assume a: "eval_ds self = None
        \<and> eval_model E self params model_state rng data_dir = Inr (summary, self', eval_iter)"
  from eval_model_Inr[OF a[THEN conjunct2]] a obtain n eds synced ms tot r where
    ds: "eval_ds self' = Some eds"
    and b: "build_dataset E self r ''test'' data_dir eval_batch_size = Inr eds"
    and l: "eval_loop E self' params synced rng (nat (n div eval_batch_size)) (iter eds) [] 0
              = Inr (ms, tot, eval_iter)"
    by auto
  from eval_loop_cursor[OF l] have s: "source eval_iter = eds"
    by (simp add: iter_def)
  from b have b': "build_dataset E self data_rng split data_dir eval_batch_size = Inr eds"
    by (simp add: build_dataset_def)
  from b have "create_input_iter E (tfds_builder E (dataset self)) eval_batch_size
                 (train_mean self) (train_stddev self) True False = Some eds"
    by (auto simp: build_dataset_def Let_def split: if_splits option.splits)
  with ds s b' show "\<exists>eds. eval_ds self' = Some eds \<and> source eval_iter = eds
             \<and> build_dataset E self data_rng split data_dir eval_batch_size = Inr eds
             \<and> create_input_iter E (tfds_builder E (dataset self)) eval_batch_size
                 (train_mean self) (train_stddev self) True False = Some eds"
    by blast
qed

theorem build_dataset_ignores_split_witness:
  "build_dataset toy_env toy_workload (0::nat) ''test'' ''/held_out'' 200
     = build_dataset toy_env toy_workload (0::nat) ''train'' ''/data'' 200
   \<and> build_dataset toy_env toy_workload (0::nat) ''test'' ''/held_out'' 200
     = Inr (toy_dataset True)
   \<and> create_input_iter toy_env (tfds_builder toy_env (dataset toy_workload)) 200
        (train_mean toy_workload) (train_stddev toy_workload) True False = Some (toy_dataset True)
   \<and> create_input_iter toy_env (tfds_builder toy_env (dataset toy_workload)) 200
        (train_mean toy_workload) (train_stddev toy_workload) False False
        \<noteq> Some (toy_dataset True)"
proof -
  note t = build_dataset_ignores_split [where E = toy_env and self = toy_workload
      and data_rng = "0::nat" and split = "''test''" and data_dir = "''/held_out''"
      and batch_size = 200 and ds = "toy_dataset True"]
  have b: "build_dataset toy_env toy_workload (0::nat) ''test'' ''/held_out'' 200
     = Inr (toy_dataset True)"
    by (rule toy_build_eval)
  from t have 1: "build_dataset toy_env toy_workload (0::nat) ''test'' ''/held_out'' 200
     = build_dataset toy_env toy_workload (0::nat) ''train'' ''/data'' 200"
    by blast
  from t b have 2: "create_input_iter toy_env (tfds_builder toy_env (dataset toy_workload)) 200
        (train_mean toy_workload) (train_stddev toy_workload) True False = Some (toy_dataset True)"
    by blast
  have "toy_dataset False 30 \<noteq> toy_dataset True 30"
    by (simp add: toy_dataset_def)
  then have "toy_dataset False \<noteq> toy_dataset True"
    by metis
  then have 3: "create_input_iter toy_env (tfds_builder toy_env (dataset toy_workload)) 200
        (train_mean toy_workload) (train_stddev toy_workload) False False
        \<noteq> Some (toy_dataset True)"
    by (simp add: toy_env_def)
  from 1 b 2 3 show ?thesis by blast
qed

subsection \<open>The learning-rate schedule\<close>

text \<open>
  C7, as the specification states it, holds for all hyperparameters. It does not: without
  warmup (\<open>warmup_epochs = 0\<close>) the schedule starts at the base rate, here
  \<open>1 * 128 / 256 = 1 / 2\<close>, and not at 0; and when \<open>num_epochs\<close> does not exceed
  \<open>warmup_epochs\<close> the cosine part still lasts one epoch, so that the rate at step
  \<open>num_epochs * steps_per_epoch\<close> is the base rate and not 0.
\<close>

theorem learning_rate_no_warmup_counterexample:
  "learning_rate_at \<lparr>learning_rate = 1, momentum = 9 / 10, l2 = 0,
                      warmup_epochs = 0, num_epochs = 10\<rparr> 73 0 = Inr (1 / 2)
   \<and> learning_rate_at \<lparr>learning_rate = 1, momentum = 9 / 10, l2 = 0,
                      warmup_epochs = 0, num_epochs = 10\<rparr> 73 0 \<noteq> Inr 0
   \<and> learning_rate_at \<lparr>learning_rate = 1, momentum = 9 / 10, l2 = 0,
                      warmup_epochs = 5, num_epochs = 5\<rparr> 73 (5 * 73) = Inr (1 / 2)"
  by (simp add: learning_rate_at_def create_learning_rate_fn_def cosine_decay_schedule_def
      join_schedules_def linear_schedule_def get_batch_size_def Let_def)

lemma learning_rate_at_eq:
  assumes s: "0 < steps_per_epoch"
  shows "learning_rate_at hparams steps_per_epoch t =
     Inr (let b = learning_rate hparams * 128 / 256;
              W = warmup_epochs hparams * real_of_int steps_per_epoch;
              D = max (num_epochs hparams - warmup_epochs hparams) 1 * real_of_int steps_per_epoch
          in if t < W then linear_schedule 0 b W t
             else b * ((1 / 2) * (1 + cos (pi * min (t - W) D / D))))"
proof -
  have "0 < max (num_epochs hparams - warmup_epochs hparams) 1 * real_of_int steps_per_epoch"
    using s by (simp add: max_def)
  then show ?thesis
    by (simp add: learning_rate_at_def create_learning_rate_fn_def cosine_decay_schedule_def
        join_schedules_def get_batch_size_def Let_def)
qed

text \<open>
  C7, amended: for hyperparameters with \<open>0 < warmup_epochs\<close> and
  \<open>warmup_epochs + 1 \<le> num_epochs\<close>, and a positive \<open>steps_per_epoch\<close>, the schedule of
  \<open>create_learning_rate_fn\<close> is 0 at step 0, rises linearly to the base rate
  \<open>learning_rate * 128 / 256\<close>, which it reaches at step \<open>warmup_epochs * steps_per_epoch\<close>,
  and from there follows the cosine of \<open>cosine_decay\<close> down to 0 at step
  \<open>num_epochs * steps_per_epoch\<close>.
\<close>

theorem learning_rate_schedule_shape:
  assumes w: "0 < warmup_epochs hparams"
    and n: "warmup_epochs hparams + 1 \<le> num_epochs hparams"
    and s: "0 < steps_per_epoch"
  defines "b \<equiv> learning_rate hparams * real_of_int (get_batch_size ''imagenet'') / 256"
    and "W \<equiv> warmup_epochs hparams * real_of_int steps_per_epoch"
    and "N \<equiv> num_epochs hparams * real_of_int steps_per_epoch"
  shows "learning_rate_at hparams steps_per_epoch 0 = Inr 0
     \<and> (\<forall>t. 0 \<le> t \<and> t < W \<longrightarrow> learning_rate_at hparams steps_per_epoch t = Inr (b * (t / W)))
     \<and> learning_rate_at hparams steps_per_epoch W = Inr b
     \<and> (\<forall>t. W \<le> t \<and> t \<le> N \<longrightarrow>
           learning_rate_at hparams steps_per_epoch t
             = Inr (b * ((1 / 2) * (1 + cos (pi * ((t - W) / (N - W))))))
           \<and> learning_rate_at hparams steps_per_epoch t = cosine_decay b (t - W) (N - W))
     \<and> learning_rate_at hparams steps_per_epoch N = Inr 0"
proof -
  have sp: "0 < real_of_int steps_per_epoch" using s by simp
  have W0: "0 < W" using w sp by (simp add: W_def)
  have mx: "max (num_epochs hparams - warmup_epochs hparams) 1
              = num_epochs hparams - warmup_epochs hparams"
    using n by (simp add: max_def)
  have D: "max (num_epochs hparams - warmup_epochs hparams) 1 * real_of_int steps_per_epoch = N - W"
    by (simp add: mx N_def W_def algebra_simps)
  have NW: "0 < N - W"
  proof -
    have "0 < (num_epochs hparams - warmup_epochs hparams) * real_of_int steps_per_epoch"
      using n sp by (intro mult_pos_pos) simp_all
    then show ?thesis by (simp add: N_def W_def algebra_simps)
  qed
  have b: "b = learning_rate hparams * 128 / 256"
    by (simp add: b_def get_batch_size_def)
  note eq = learning_rate_at_eq[OF s, of hparams, unfolded Let_def D, folded W_def b]
  have 0: "learning_rate_at hparams steps_per_epoch 0 = Inr 0"
    using W0 by (simp add: eq linear_schedule_def)
  have 1: "learning_rate_at hparams steps_per_epoch t = Inr (b * (t / W))"
    if "0 \<le> t \<and> t < W" for t
    using that W0 by (simp add: eq linear_schedule_def max_def min_def algebra_simps)
  have 2: "learning_rate_at hparams steps_per_epoch t
             = Inr (b * ((1 / 2) * (1 + cos (pi * ((t - W) / (N - W))))))"
    if "W \<le> t \<and> t \<le> N" for t
  proof -
    from that have "min (t - W) (N - W) = t - W" by simp
    with that show ?thesis by (simp add: eq)
  qed
  have 3: "learning_rate_at hparams steps_per_epoch t = cosine_decay b (t - W) (N - W)"
    if "W \<le> t \<and> t \<le> N" for t
  proof -
    from that NW have "0 \<le> (t - W) / (N - W)" by simp
    then have "max 0 ((t - W) / (N - W)) = (t - W) / (N - W)" by simp
    with NW show ?thesis
      by (simp add: 2[OF that] cosine_decay_def Let_def)
  qed
  have 4: "learning_rate_at hparams steps_per_epoch W = Inr b"
    using 2[of W] NW by simp
  have 5: "learning_rate_at hparams steps_per_epoch N = Inr 0"
    using 2[of N] NW by simp
  from 0 1 2 3 4 5 show ?thesis by blast
qed

theorem learning_rate_schedule_shape_witness:
  "learning_rate_at toy_hparams 73 0 = Inr 0
   \<and> learning_rate_at toy_hparams 73 73 = Inr (1 / 10)
   \<and> learning_rate_at toy_hparams 73 365 = Inr (1 / 2)
   \<and> learning_rate_at toy_hparams 73 730 = Inr 0"
proof -
  have h: "0 < warmup_epochs toy_hparams" "warmup_epochs toy_hparams + 1 \<le> num_epochs toy_hparams"
    "0 < (73::int)"
    by (simp_all add: toy_hparams_def)
  note t = learning_rate_schedule_shape [OF h]
  from t have "learning_rate_at toy_hparams 73 0 = Inr 0" by blast
  moreover from t have "learning_rate_at toy_hparams 73 73 = Inr (1 / 10)"
    by (simp add: toy_hparams_def get_batch_size_def)
  moreover from t have "learning_rate_at toy_hparams 73 365 = Inr (1 / 2)"
    by (simp add: toy_hparams_def get_batch_size_def)
  moreover from t have "learning_rate_at toy_hparams 73 730 = Inr 0"
    by (simp add: toy_hparams_def get_batch_size_def)
  ultimately show ?thesis by blast
qed

subsection \<open>Synchronising twice\<close>









lemma those_map_Some: "those (map (\<lambda>d. Some (f d)) xs) = Some (map f xs)"
  by (induction xs) simp_all







end
